theory Spec2Isabelle
  imports Complex_Main
begin

section \<open>Python values and the conversions \<open>int()\<close>, \<open>float()\<close>, \<open>round(_, 2)\<close>\<close>

text \<open>
  The reimbursement calculator of \<^verbatim>\<open>solution.py\<close> and the calibration variant of
  \<^verbatim>\<open>solver_v5.py\<close> compute with Python ints and floats. The embedding idealises a
  finite float as a rational number: arithmetic is exact, comparisons are the rational
  ones, and the literals of the source (\<open>0.26\<close>, \<open>2321.49\<close>, ...) are written as
  fractions. Which branch is taken and which formula is applied is the same as in
  float arithmetic; the value that is rounded is the exact sum and not the double the
  code has computed, so a rounded amount can differ from the code's by one cent (at
  \<open>(3, 93, 1.42)\<close> the exact sum \<open>306.165\<close> rounds to \<open>306.16\<close>, the code returns
  \<open>306.17\<close>). The floats \<open>inf\<close> and \<open>nan\<close> are outside the model, except where the
  source uses \<open>float('inf')\<close> as the default of a missing threshold: a threshold is a
  \<open>rat option\<close> and \<open>None\<close> is that infinite default.

  An argument of \<open>calculate\<close> is an int, a finite float, or \<open>None\<close>, the representative
  of the values that \<open>int()\<close> and \<open>float()\<close> reject with a \<open>TypeError\<close>. Strings are not
  modelled. The conversion of an int to a float is taken to be exact, as it is up to
  \<open>2^53\<close> in absolute value; an int so large that the conversion raises
  \<open>OverflowError\<close> is outside the model, and no statement below is made about one.
\<close>

datatype pyval = PyInt int | PyFloat rat | PyNone

datatype error = TypeError

text \<open>\<open>int(x)\<close> of a float truncates toward zero.\<close>

definition py_trunc :: "rat \<Rightarrow> int" where
  "py_trunc x = (if 0 \<le> x then \<lfloor>x\<rfloor> else \<lceil>x\<rceil>)"

fun py_int :: "pyval \<Rightarrow> error + int" where
  "py_int (PyInt n) = Inr n"
| "py_int (PyFloat x) = Inr (py_trunc x)"
| "py_int PyNone = Inl TypeError"

fun py_float :: "pyval \<Rightarrow> error + rat" where
  "py_float (PyInt n) = Inr (of_int n)"
| "py_float (PyFloat x) = Inr x"
| "py_float PyNone = Inl TypeError"

text \<open>\<open>round(x, 2)\<close>: to the nearest multiple of \<open>1/100\<close>, a tie to the even one.\<close>

definition round_half_even :: "rat \<Rightarrow> int" where
  "round_half_even x =
     (let f = \<lfloor>x\<rfloor>; d = x - of_int f
      in if d < 1 / 2 then f
         else if 1 / 2 < d then f + 1
         else if even f then f else f + 1)"

definition py_round2 :: "rat \<Rightarrow> rat" where
  "py_round2 x = of_int (round_half_even (x * 100)) / 100"

text \<open>\<open>x > d.get(key, float('inf'))\<close>: a missing threshold is never exceeded.\<close>

fun exceeds :: "rat \<Rightarrow> rat option \<Rightarrow> bool" where
  "exceeds x None = False"
| "exceeds x (Some t) = (t < x)"

text \<open>\<open>d.get(key, 0)\<close>.\<close>

fun get_or_0 :: "rat option \<Rightarrow> rat" where
  "get_or_0 None = 0"
| "get_or_0 (Some v) = v"

section \<open>The rule table and the outlier parameters of \<^verbatim>\<open>solution.py\<close>\<close>

record rule =
  per_diem :: rat
  mileage_rate1 :: rat
  mileage_threshold :: int
  mileage_rate2 :: rat
  receipt_rate :: rat
  receipt_cap :: rat
  low_receipt_threshold :: rat
  low_receipt_penalty :: rat

text \<open>
  The per-day parameter dictionary is read with \<open>.get\<close> and a default, so each key may be
  absent.
\<close>

record day_params =
  outlier_threshold :: "rat option"
  outlier_rate :: "rat option"
  outlier_penalty :: "rat option"

definition no_day_params :: day_params where
  "no_day_params = \<lparr>outlier_threshold = None, outlier_rate = None, outlier_penalty = None\<rparr>"

text \<open>
  The trained long-trip models are joblib artifacts loaded at construction; a model is
  the function its \<open>predict\<close> computes on the one-row frame
  \<open>(trip_duration_days, miles_traveled, total_receipts_amount)\<close>.
\<close>

type_synonym model = "int \<Rightarrow> int \<Rightarrow> rat \<Rightarrow> rat"

record calculator =
  long_trip_model :: model
  outlier_model :: model
  rules :: "int \<rightharpoonup> rule"
  params :: "int \<rightharpoonup> day_params"

definition solution_rules :: "int \<rightharpoonup> rule" where
  "solution_rules =
    [1 \<mapsto> \<lparr>per_diem = 40, mileage_rate1 = 5 / 10, mileage_threshold = 75,
           mileage_rate2 = 3 / 10, receipt_rate = 75 / 100, receipt_cap = 1100,
           low_receipt_threshold = 10, low_receipt_penalty = 0\<rparr>,
     2 \<mapsto> \<lparr>per_diem = 100, mileage_rate1 = 52 / 100, mileage_threshold = 75,
           mileage_rate2 = 35 / 100, receipt_rate = 8 / 10, receipt_cap = 1100,
           low_receipt_threshold = 10, low_receipt_penalty = 0\<rparr>,
     3 \<mapsto> \<lparr>per_diem = 240, mileage_rate1 = 7 / 10, mileage_threshold = 100,
           mileage_rate2 = 25 / 100, receipt_rate = 75 / 100, receipt_cap = 1000,
           low_receipt_threshold = 10, low_receipt_penalty = 0\<rparr>,
     4 \<mapsto> \<lparr>per_diem = 260, mileage_rate1 = 7 / 10, mileage_threshold = 125,
           mileage_rate2 = 25 / 100, receipt_rate = 75 / 100, receipt_cap = 1100,
           low_receipt_threshold = 10, low_receipt_penalty = 0\<rparr>,
     5 \<mapsto> \<lparr>per_diem = 310, mileage_rate1 = 5 / 10, mileage_threshold = 75,
           mileage_rate2 = 45 / 100, receipt_rate = 8 / 10, receipt_cap = 1000,
           low_receipt_threshold = 10, low_receipt_penalty = 0\<rparr>,
     6 \<mapsto> \<lparr>per_diem = 380, mileage_rate1 = 7 / 10, mileage_threshold = 125,
           mileage_rate2 = 45 / 100, receipt_rate = 75 / 100, receipt_cap = 1000,
           low_receipt_threshold = 10, low_receipt_penalty = 0\<rparr>,
     7 \<mapsto> \<lparr>per_diem = 490, mileage_rate1 = 64 / 100, mileage_threshold = 125,
           mileage_rate2 = 5 / 10, receipt_rate = 8 / 10, receipt_cap = 900,
           low_receipt_threshold = 10, low_receipt_penalty = 0\<rparr>]"

definition solution_params :: "int \<rightharpoonup> day_params" where
  "solution_params =
    [1 \<mapsto> \<lparr>outlier_threshold = Some 1800, outlier_rate = Some (26 / 100),
           outlier_penalty = Some 500\<rparr>,
     2 \<mapsto> \<lparr>outlier_threshold = Some 2300, outlier_rate = Some (28 / 100),
           outlier_penalty = Some 400\<rparr>,
     3 \<mapsto> \<lparr>outlier_threshold = Some 2200, outlier_rate = Some (48 / 100),
           outlier_penalty = Some (- 100)\<rparr>,
     4 \<mapsto> \<lparr>outlier_threshold = Some 2400, outlier_rate = Some (24 / 100),
           outlier_penalty = Some 500\<rparr>,
     5 \<mapsto> \<lparr>outlier_threshold = Some 2400, outlier_rate = Some (18 / 100),
           outlier_penalty = Some 500\<rparr>,
     6 \<mapsto> \<lparr>outlier_threshold = Some 2000, outlier_rate = Some (36 / 100),
           outlier_penalty = Some 200\<rparr>,
     7 \<mapsto> \<lparr>outlier_threshold = Some 1900, outlier_rate = Some (18 / 100),
           outlier_penalty = Some 500\<rparr>]"

text \<open>\<open>ReimbursementCalculator.__init__\<close>, given the two loaded models.\<close>

definition calculator_init :: "model \<Rightarrow> model \<Rightarrow> calculator" where
  "calculator_init general outlier =
     \<lparr>long_trip_model = general, outlier_model = outlier,
      rules = solution_rules, params = solution_params\<rparr>"

section \<open>\<open>ReimbursementCalculator.calculate\<close> of \<^verbatim>\<open>solution.py\<close>\<close>

text \<open>Lines 61--65: the tiered mileage term.\<close>

definition mileage_reimbursement :: "rule \<Rightarrow> int \<Rightarrow> rat" where
  "mileage_reimbursement rule miles_traveled =
     (if mileage_threshold rule < miles_traveled
      then of_int (mileage_threshold rule) * mileage_rate1 rule
           + of_int (miles_traveled - mileage_threshold rule) * mileage_rate2 rule
      else of_int miles_traveled * mileage_rate1 rule)"

text \<open>Line 57: the outlier flag.\<close>

definition is_outlier :: "day_params \<Rightarrow> rat \<Rightarrow> bool" where
  "is_outlier day_params total_receipts_amount =
     exceeds total_receipts_amount (outlier_threshold day_params)"

text \<open>Lines 67--70: the receipt term.\<close>

definition receipt_reimbursement :: "rule \<Rightarrow> day_params \<Rightarrow> rat \<Rightarrow> rat" where
  "receipt_reimbursement rule day_params total_receipts_amount =
     (if is_outlier day_params total_receipts_amount
      then total_receipts_amount * get_or_0 (outlier_rate day_params)
           + get_or_0 (outlier_penalty day_params)
      else min (total_receipts_amount * receipt_rate rule) (receipt_cap rule))"

text \<open>Line 55: \<open>self.params.get(trip_duration_days, {})\<close>.\<close>

definition get_day_params :: "calculator \<Rightarrow> int \<Rightarrow> day_params" where
  "get_day_params self trip_duration_days =
     (case params self trip_duration_days of
        Some day_params \<Rightarrow> day_params
      | None \<Rightarrow> no_day_params)"

text \<open>Lines 54--75: the branch for a duration that is a key of the rule table.\<close>

definition short_trip :: "rule \<Rightarrow> day_params \<Rightarrow> int \<Rightarrow> rat \<Rightarrow> rat" where
  "short_trip rule day_params miles_traveled total_receipts_amount =
     (let reimbursement = per_diem rule + mileage_reimbursement rule miles_traveled
                          + receipt_reimbursement rule day_params total_receipts_amount
      in if \<not> is_outlier day_params total_receipts_amount
            \<and> 0 < total_receipts_amount
            \<and> total_receipts_amount < low_receipt_threshold rule
         then reimbursement - low_receipt_penalty rule
         else reimbursement)"

text \<open>Lines 77--90: the branch for durations 8 to 14.\<close>

definition long_trip :: "calculator \<Rightarrow> int \<Rightarrow> int \<Rightarrow> rat \<Rightarrow> rat" where
  "long_trip self trip_duration_days miles_traveled total_receipts_amount =
     (let model_to_use = (if 2500 < total_receipts_amount then outlier_model self
                          else long_trip_model self)
      in model_to_use trip_duration_days miles_traveled total_receipts_amount)"

text \<open>
  Lines 41--94 on the converted arguments: the five hardcoded cases return their amount
  as it stands, every other path ends in \<open>round(reimbursement, 2)\<close>.
\<close>

definition dispatch :: "calculator \<Rightarrow> int \<Rightarrow> int \<Rightarrow> rat \<Rightarrow> rat" where
  "dispatch self trip_duration_days miles_traveled total_receipts_amount =
     (if trip_duration_days = 4 \<and> miles_traveled = 69
         \<and> total_receipts_amount = 232149 / 100 then 322
      else if trip_duration_days = 2 \<and> miles_traveled = 18
         \<and> total_receipts_amount = 250346 / 100 then 120695 / 100
      else if trip_duration_days = 5 \<and> miles_traveled = 196
         \<and> total_receipts_amount = 122849 / 100 then 51123 / 100
      else if trip_duration_days = 1 \<and> miles_traveled = 1082
         \<and> total_receipts_amount = 180949 / 100 then 44694 / 100
      else if trip_duration_days = 5 \<and> miles_traveled = 516
         \<and> total_receipts_amount = 187849 / 100 then 66985 / 100
      else py_round2
        (case rules self trip_duration_days of
           Some rule \<Rightarrow>
             short_trip rule (get_day_params self trip_duration_days)
               miles_traveled total_receipts_amount
         | None \<Rightarrow>
             if 8 \<le> trip_duration_days \<and> trip_duration_days \<le> 14
             then long_trip self trip_duration_days miles_traveled total_receipts_amount
             else 0))"

text \<open>Lines 37--39 convert the arguments, in this order; a failed conversion raises.\<close>

definition calculate :: "calculator \<Rightarrow> pyval \<Rightarrow> pyval \<Rightarrow> pyval \<Rightarrow> error + rat" where
  "calculate self trip_duration_days miles_traveled total_receipts_amount =
     (case py_int trip_duration_days of
        Inl e \<Rightarrow> Inl e
      | Inr d \<Rightarrow>
          (case py_int miles_traveled of
             Inl e \<Rightarrow> Inl e
           | Inr m \<Rightarrow>
               (case py_float total_receipts_amount of
                  Inl e \<Rightarrow> Inl e
                | Inr r \<Rightarrow> Inr (dispatch self d m r))))"

text \<open>The five hardcoded cases of lines 42--51 as a table: duration, miles, receipts, amount.\<close>

definition hardcoded_cases :: "(int \<times> int \<times> rat \<times> rat) list" where
  "hardcoded_cases =
     [(4, 69, 232149 / 100, 322),
      (2, 18, 250346 / 100, 120695 / 100),
      (5, 196, 122849 / 100, 51123 / 100),
      (1, 1082, 180949 / 100, 44694 / 100),
      (5, 516, 187849 / 100, 66985 / 100)]"

text \<open>The amount the table records for a converted triple, if it has one.\<close>

definition hardcoded_amount :: "int \<Rightarrow> int \<Rightarrow> rat \<Rightarrow> rat option" where
  "hardcoded_amount d m r =
     map_of (map (\<lambda>(d, m, r, a). ((d, m, r), a)) hardcoded_cases) (d, m, r)"

section \<open>\<open>ReimbursementCalculator.calculate\<close> of \<^verbatim>\<open>solver_v5.py\<close>\<close>

text \<open>
  The calibration variant takes its rule table and its regime parameters from the
  caller, and tells three regimes apart by two thresholds.
\<close>

record v5_day_params =
  anomaly_threshold :: "rat option"
  bug_threshold :: "rat option"
  anomaly_rate :: "rat option"
  bug_rate :: "rat option"

definition v5_no_day_params :: v5_day_params where
  "v5_no_day_params =
     \<lparr>anomaly_threshold = None, bug_threshold = None, anomaly_rate = None, bug_rate = None\<rparr>"

record v5_calculator =
  v5_long_trip_model :: model
  v5_rules :: "int \<rightharpoonup> rule"
  v5_params :: "int \<rightharpoonup> v5_day_params"

text \<open>Line 27: \<open>self.params.get(day, {})\<close>.\<close>

definition v5_get_day_params :: "v5_calculator \<Rightarrow> int \<Rightarrow> v5_day_params" where
  "v5_get_day_params self day =
     (case v5_params self day of
        Some day_params \<Rightarrow> day_params
      | None \<Rightarrow> v5_no_day_params)"

text \<open>Lines 32--33.\<close>

definition is_bug :: "v5_day_params \<Rightarrow> rat \<Rightarrow> bool" where
  "is_bug day_params receipts = exceeds receipts (bug_threshold day_params)"

definition is_anomaly :: "v5_day_params \<Rightarrow> rat \<Rightarrow> bool" where
  "is_anomaly day_params receipts =
     (\<not> is_bug day_params receipts \<and> exceeds receipts (anomaly_threshold day_params))"

text \<open>Lines 40--45: the receipt term.\<close>

definition v5_receipt_reimbursement :: "rule \<Rightarrow> v5_day_params \<Rightarrow> rat \<Rightarrow> rat" where
  "v5_receipt_reimbursement rule day_params receipts =
     (if is_bug day_params receipts then receipts * get_or_0 (bug_rate day_params)
      else if is_anomaly day_params receipts
      then receipts * get_or_0 (anomaly_rate day_params)
      else min (receipts * receipt_rate rule) (receipt_cap rule))"

text \<open>Lines 26--52, once the duration is known to be a key of the rule table.\<close>

definition v5_formula :: "rule \<Rightarrow> v5_day_params \<Rightarrow> int \<Rightarrow> rat \<Rightarrow> rat" where
  "v5_formula rule day_params miles receipts =
     (let reimbursement = per_diem rule + mileage_reimbursement rule miles
                          + v5_receipt_reimbursement rule day_params receipts
      in py_round2
           (if \<not> is_bug day_params receipts \<and> \<not> is_anomaly day_params receipts
               \<and> 0 < receipts \<and> receipts < low_receipt_threshold rule
            then reimbursement - low_receipt_penalty rule
            else reimbursement))"

definition v5_calculate :: "v5_calculator \<Rightarrow> pyval \<Rightarrow> pyval \<Rightarrow> pyval \<Rightarrow> error + rat" where
  "v5_calculate self trip_duration_days miles_traveled total_receipts_amount =
     (case py_int trip_duration_days of
        Inl e \<Rightarrow> Inl e
      | Inr day \<Rightarrow>
          (case py_int miles_traveled of
             Inl e \<Rightarrow> Inl e
           | Inr miles \<Rightarrow>
               (case py_float total_receipts_amount of
                  Inl e \<Rightarrow> Inl e
                | Inr receipts \<Rightarrow>
                    (case v5_rules self day of
                       None \<Rightarrow> Inr 0
                     | Some rule \<Rightarrow>
                         Inr (v5_formula rule (v5_get_day_params self day)
                                miles receipts)))))"

text \<open>
  The regime is the branch that the chain \<open>if is_bug: ... elif is_anomaly: ... else: ...\<close>
  of lines 40--45 takes.
\<close>

datatype regime = Normal | Anomaly | Bug

definition regime_of :: "v5_day_params \<Rightarrow> rat \<Rightarrow> regime" where
  "regime_of day_params receipts =
     (if is_bug day_params receipts then Bug
      else if is_anomaly day_params receipts then Anomaly
      else Normal)"

text \<open>The order in which the regimes are met as the receipts grow.\<close>

fun regime_rank :: "regime \<Rightarrow> nat" where
  "regime_rank Normal = 0"
| "regime_rank Anomaly = 1"
| "regime_rank Bug = 2"

section \<open>Fixtures for concrete evaluations\<close>

text \<open>
  Two distinguishable stand-ins for the trained models, the calculator that
  \<open>__init__\<close> builds from them, and one regime parameter set of the shape the grid
  search of \<^verbatim>\<open>solver_v5.py\<close> produces.
\<close>

definition stub_general :: model where
  "stub_general d m r = 1000 + of_int d"

definition stub_outlier :: model where
  "stub_outlier d m r = 2000 + of_int d"

definition stub_calculator :: calculator where
  "stub_calculator = calculator_init stub_general stub_outlier"

definition v5_example_params :: v5_day_params where
  "v5_example_params =
     \<lparr>anomaly_threshold = Some 800, bug_threshold = Some 1000,
      anomaly_rate = Some (30 / 100), bug_rate = Some (5 / 1000)\<rparr>"

definition v5_example :: v5_calculator where
  "v5_example =
     \<lparr>v5_long_trip_model = stub_general, v5_rules = solution_rules,
      v5_params = [1 \<mapsto> v5_example_params]\<rparr>"

text \<open>A parameter set whose two thresholds are equal.\<close>

definition v5_equal_thresholds :: v5_day_params where
  "v5_equal_thresholds =
     \<lparr>anomaly_threshold = Some 1000, bug_threshold = Some 1000,
      anomaly_rate = Some (30 / 100), bug_rate = Some (5 / 1000)\<rparr>"

definition v5_equal_example :: v5_calculator where
  "v5_equal_example =
     \<lparr>v5_long_trip_model = stub_general, v5_rules = solution_rules,
      v5_params = [1 \<mapsto> v5_equal_thresholds]\<rparr>"

text \<open>The outlier thresholds of \<^verbatim>\<open>solution.py\<close> lines 22--28, for the durations 1 to 7.\<close>

definition outlier_thresholds :: "rat list" where
  "outlier_thresholds = [1800, 2300, 2200, 2400, 2400, 2000, 1900]"

section \<open>Facts about the conversions\<close>

lemma py_round2_0: "py_round2 0 = 0"
  by (simp add: py_round2_def round_half_even_def)

lemma py_trunc_toward_zero:
  "\<bar>of_int (py_trunc x)\<bar> \<le> \<bar>x\<bar> \<and> \<bar>x - of_int (py_trunc x)\<bar> < 1"
  unfolding py_trunc_def by (auto; linarith)

lemma round_half_even_near: "\<bar>of_int (round_half_even x) - x\<bar> \<le> 1 / 2"
proof -
  have "of_int \<lfloor>x\<rfloor> \<le> x" and "x < of_int \<lfloor>x\<rfloor> + 1"
    by linarith+
  then show ?thesis
    by (simp add: round_half_even_def Let_def abs_le_iff)
qed

lemma py_round2_near: "\<bar>py_round2 x - x\<bar> \<le> 1 / 200"
  using round_half_even_near [of "x * 100"] unfolding py_round2_def
  by (simp add: field_simps abs_le_iff)

lemma py_round2_cents: "py_round2 x * 100 \<in> \<int>"
  by (simp add: py_round2_def)

lemma exceeds_mono: "r \<le> r' \<Longrightarrow> exceeds r t \<Longrightarrow> exceeds r' t"
  by (cases t) auto

section \<open>Facts about the shipped tables\<close>

lemma solution_rules_dom: "(solution_rules d = None) = (d < 1 \<or> 7 < d)"
  by (simp add: solution_rules_def) arith

lemma solution_rules_penalty:
  "solution_rules d = Some rule \<Longrightarrow> low_receipt_penalty rule = 0"
  by (auto simp add: solution_rules_def split: if_splits)

lemma solution_rules_threshold:
  "solution_rules d = Some rule \<Longrightarrow> low_receipt_threshold rule = 10"
  by (auto simp add: solution_rules_def split: if_splits)

lemma solution_params_shape:
  "solution_rules d = Some rule \<Longrightarrow>
   \<exists>dp t pen. solution_params d = Some dp \<and> outlier_threshold dp = Some t \<and> 1800 \<le> t
      \<and> outlier_penalty dp = Some pen \<and> pen \<noteq> 0"
  by (auto simp add: solution_rules_def solution_params_def split: if_splits)

lemma calculator_init_sel:
  "long_trip_model (calculator_init general outlier) = general"
  "outlier_model (calculator_init general outlier) = outlier"
  "rules (calculator_init general outlier) = solution_rules"
  "params (calculator_init general outlier) = solution_params"
  by (simp_all add: calculator_init_def)

text \<open>Whether a converted triple is one of the hardcoded cases.\<close>

lemma hardcoded_iff:
  "((d, m, r) \<in> (\<lambda>(d, m, r, a). (d, m, r)) ` set hardcoded_cases) =
   (d = 4 \<and> m = 69 \<and> r = 232149 / 100 \<or> d = 2 \<and> m = 18 \<and> r = 250346 / 100
    \<or> d = 5 \<and> m = 196 \<and> r = 122849 / 100 \<or> d = 1 \<and> m = 1082 \<and> r = 180949 / 100
    \<or> d = 5 \<and> m = 516 \<and> r = 187849 / 100)"
  by (auto simp add: hardcoded_cases_def)

lemma dispatch_short:
  assumes "solution_rules d = Some rule"
    and "(d, m, r) \<notin> (\<lambda>(d, m, r, a). (d, m, r)) ` set hardcoded_cases"
  shows "dispatch (calculator_init general outlier) d m r =
     py_round2 (short_trip rule (get_day_params (calculator_init general outlier) d) m r)"
  using assms by (auto simp add: dispatch_def calculator_init_sel hardcoded_cases_def)

lemma dispatch_outside:
  assumes "d < 1 \<or> 7 < d"
  shows "dispatch (calculator_init general outlier) d m r =
     py_round2 (if 8 \<le> d \<and> d \<le> 14
                then long_trip (calculator_init general outlier) d m r else 0)"
proof -
  have "solution_rules d = None"
    using assms by (simp add: solution_rules_dom)
  moreover have "d \<noteq> 4" "d \<noteq> 2" "d \<noteq> 5" "d \<noteq> 1"
    using assms by auto
  ultimately show ?thesis
    by (simp add: dispatch_def calculator_init_sel)
qed

lemma solution_rules_signs:
  "solution_rules d = Some rule \<Longrightarrow>
   0 \<le> mileage_threshold rule \<and> 0 < receipt_rate rule \<and> 0 < receipt_cap rule"
  by (auto simp add: solution_rules_def split: if_splits)

lemma solution_outlier_threshold:
  assumes "1 \<le> d" and "d \<le> 7"
  shows "outlier_threshold (get_day_params (calculator_init general outlier) d) =
     Some (outlier_thresholds ! nat (d - 1))"
proof -
  have "d = 1 \<or> d = 2 \<or> d = 3 \<or> d = 4 \<or> d = 5 \<or> d = 6 \<or> d = 7"
    using assms by arith
  then show ?thesis
    by (auto simp add: get_day_params_def calculator_init_sel solution_params_def
        outlier_thresholds_def)
qed

lemma hardcoded_amount_None:
  "(hardcoded_amount d m r = None) =
   ((d, m, r) \<notin> (\<lambda>(d, m, r, a). (d, m, r)) ` set hardcoded_cases)"
  by (auto simp add: hardcoded_amount_def hardcoded_cases_def)

lemma dispatch_hardcoded:
  "hardcoded_amount d m r = Some a \<Longrightarrow> dispatch self d m r = a"
  by (auto simp add: hardcoded_amount_def hardcoded_cases_def dispatch_def split: if_splits)

lemma short_trip_unfold:
  assumes "low_receipt_penalty rule = 0"
  shows "short_trip rule dp m r =
     per_diem rule + mileage_reimbursement rule m + receipt_reimbursement rule dp r"
  using assms by (simp add: short_trip_def Let_def)

section \<open>The claims\<close>

text \<open>
  C1 (as amended). A trip of duration 1..7 that is one of the five hardcoded cases
  returns its recorded amount, and no receipt term is computed for it. For every other
  trip of duration 1..7 the receipt term is selected by the regime alone. In the normal
  regime it is \<open>min(receipts * receipt_rate, receipt_cap)\<close>. In \<^verbatim>\<open>solver_v5.py\<close>,
  which has no hardcoded cases, the anomaly and the bug regime each multiply the
  receipts by that regime's rate, with no offset. In \<^verbatim>\<open>solution.py\<close> the outlier
  regime is \<open>receipts * outlier_rate + outlier_penalty\<close>: an additive offset, which is
  not zero for any of the seven shipped durations.
\<close>

theorem receipt_term_by_regime:
  assumes "solution_rules d = Some rule"
    and "v5_rules v5 d = Some vrule"
  shows "calculate (calculator_init general outlier) (PyInt d) (PyInt m) (PyFloat r) =
       Inr (case hardcoded_amount d m r of
              Some a \<Rightarrow> a
            | None \<Rightarrow>
                py_round2 (per_diem rule + mileage_reimbursement rule m
                  + (if is_outlier (get_day_params (calculator_init general outlier) d) r
                     then r * get_or_0
                            (outlier_rate (get_day_params (calculator_init general outlier) d))
                          + get_or_0
                            (outlier_penalty (get_day_params (calculator_init general outlier) d))
                     else min (r * receipt_rate rule) (receipt_cap rule))))
     \<and> get_or_0 (outlier_penalty (get_day_params (calculator_init general outlier) d)) \<noteq> 0
     \<and> v5_calculate v5 (PyInt d) (PyInt m) (PyFloat r) =
       Inr (py_round2 (per_diem vrule + mileage_reimbursement vrule m
         + (case regime_of (v5_get_day_params v5 d) r of
              Bug \<Rightarrow> r * get_or_0 (bug_rate (v5_get_day_params v5 d))
            | Anomaly \<Rightarrow> r * get_or_0 (anomaly_rate (v5_get_day_params v5 d))
            | Normal \<Rightarrow> min (r * receipt_rate vrule) (receipt_cap vrule))
         - (if regime_of (v5_get_day_params v5 d) r = Normal \<and> 0 < r
               \<and> r < low_receipt_threshold vrule
            then low_receipt_penalty vrule else 0)))"
proof -
  let ?c = "calculator_init general outlier"
  have pen: "low_receipt_penalty rule = 0"
    using assms(1) by (rule solution_rules_penalty)
  have a: "calculate ?c (PyInt d) (PyInt m) (PyFloat r) =
      Inr (case hardcoded_amount d m r of
             Some a \<Rightarrow> a
           | None \<Rightarrow>
               py_round2 (per_diem rule + mileage_reimbursement rule m
                 + (if is_outlier (get_day_params ?c d) r
                    then r * get_or_0 (outlier_rate (get_day_params ?c d))
                         + get_or_0 (outlier_penalty (get_day_params ?c d))
                    else min (r * receipt_rate rule) (receipt_cap rule))))"
  proof (cases "hardcoded_amount d m r")
    case None
    then have "(d, m, r) \<notin> (\<lambda>(d, m, r, a). (d, m, r)) ` set hardcoded_cases"
      by (simp add: hardcoded_amount_None)
    then have "calculate ?c (PyInt d) (PyInt m) (PyFloat r) =
        Inr (py_round2 (short_trip rule (get_day_params ?c d) m r))"
      using assms(1) by (simp add: calculate_def dispatch_short)
    then show ?thesis
      using pen None by (simp add: short_trip_unfold receipt_reimbursement_def)
  next
    case (Some amount)
    then show ?thesis
      by (simp add: calculate_def dispatch_hardcoded)
  qed
  obtain dp t p where "solution_params d = Some dp" and "outlier_penalty dp = Some p"
      and "p \<noteq> 0"
    using solution_params_shape [OF assms(1)] by blast
  then have b: "get_or_0 (outlier_penalty (get_day_params ?c d)) \<noteq> 0"
    by (simp add: get_day_params_def calculator_init_sel)
  have "v5_calculate v5 (PyInt d) (PyInt m) (PyFloat r) =
      Inr (v5_formula vrule (v5_get_day_params v5 d) m r)"
    using assms(2) by (simp add: v5_calculate_def)
  then have c: "v5_calculate v5 (PyInt d) (PyInt m) (PyFloat r) =
      Inr (py_round2 (per_diem vrule + mileage_reimbursement vrule m
        + (case regime_of (v5_get_day_params v5 d) r of
             Bug \<Rightarrow> r * get_or_0 (bug_rate (v5_get_day_params v5 d))
           | Anomaly \<Rightarrow> r * get_or_0 (anomaly_rate (v5_get_day_params v5 d))
           | Normal \<Rightarrow> min (r * receipt_rate vrule) (receipt_cap vrule))
        - (if regime_of (v5_get_day_params v5 d) r = Normal \<and> 0 < r
              \<and> r < low_receipt_threshold vrule
           then low_receipt_penalty vrule else 0)))"
    by (simp add: v5_formula_def v5_receipt_reimbursement_def regime_of_def Let_def)
  from a b c show ?thesis
    by (intro conjI)
qed

theorem receipt_term_by_regime_witness:
  "solution_rules 1 = Some (the (solution_rules 1))
   \<and> v5_rules v5_example 1 = Some (the (solution_rules 1))
   \<and> calculate stub_calculator (PyInt 1) (PyInt 0) (PyFloat 2000) =
       Inr (py_round2 (40 + 0 + (2000 * (26 / 100) + 500)))
   \<and> v5_calculate v5_example (PyInt 1) (PyInt 0) (PyFloat 2000) =
       Inr (py_round2 (40 + 0 + 2000 * (5 / 1000) - 0))
   \<and> calculate stub_calculator (PyInt 1) (PyInt 1082) (PyFloat (180949 / 100)) =
       Inr (44694 / 100)"
proof -
  have h1: "solution_rules 1 = Some (the (solution_rules 1))"
    by (simp add: solution_rules_def)
  have h3: "v5_rules v5_example 1 = Some (the (solution_rules 1))"
    by (simp add: v5_example_def solution_rules_def)
  have r1: "the (solution_rules 1) =
      \<lparr>per_diem = 40, mileage_rate1 = 5 / 10, mileage_threshold = 75,
       mileage_rate2 = 3 / 10, receipt_rate = 75 / 100, receipt_cap = 1100,
       low_receipt_threshold = 10, low_receipt_penalty = 0\<rparr>"
    by (simp add: solution_rules_def)
  have p1: "get_day_params (calculator_init stub_general stub_outlier) 1 =
      \<lparr>outlier_threshold = Some 1800, outlier_rate = Some (26 / 100),
       outlier_penalty = Some 500\<rparr>"
    by (simp add: get_day_params_def calculator_init_sel solution_params_def)
  have p2: "v5_get_day_params v5_example 1 = v5_example_params"
    by (simp add: v5_get_day_params_def v5_example_def)
  have r5: "regime_of v5_example_params 2000 = Bug"
    by (simp add: regime_of_def is_bug_def v5_example_params_def)
  have b5: "bug_rate v5_example_params = Some (5 / 1000)"
    by (simp add: v5_example_params_def)
  have n: "hardcoded_amount 1 0 2000 = None"
    and y: "hardcoded_amount 1 1082 (180949 / 100) = Some (44694 / 100)"
    by (simp_all add: hardcoded_amount_def hardcoded_cases_def)
  have one: "calculate stub_calculator (PyInt 1) (PyInt 0) (PyFloat 2000) =
       Inr (py_round2 (40 + 0 + (2000 * (26 / 100) + 500)))
     \<and> v5_calculate v5_example (PyInt 1) (PyInt 0) (PyFloat 2000) =
       Inr (py_round2 (40 + 0 + 2000 * (5 / 1000) - 0))"
    using receipt_term_by_regime [OF h1 h3, of stub_general stub_outlier 0 2000]
    by (simp add: stub_calculator_def r1 p1 p2 r5 b5 n is_outlier_def
        mileage_reimbursement_def)
  have two: "calculate stub_calculator (PyInt 1) (PyInt 1082) (PyFloat (180949 / 100)) =
       Inr (44694 / 100)"
    using receipt_term_by_regime [OF h1 h3, of stub_general stub_outlier 1082 "180949 / 100"]
    by (simp add: stub_calculator_def y)
  from h1 h3 one two show ?thesis
    by blast
qed

theorem receipt_term_offset_counterexample:
  "is_outlier (get_day_params stub_calculator 1) 2000
   \<and> receipt_reimbursement (the (rules stub_calculator 1)) (get_day_params stub_calculator 1) 2000 = 1020
   \<and> 2000 * get_or_0 (outlier_rate (get_day_params stub_calculator 1)) = 520
   \<and> calculate stub_calculator (PyInt 1) (PyInt 0) (PyFloat 2000) = Inr 1060"
  by code_simp


text \<open>
  C2. A call whose converted arguments are one of the hardcoded cases returns the
  recorded amount as it stands, whatever the rule table, the parameters and the models
  of the calculator are: the check comes before any of them is read. In particular
  \<open>calculate(4, 69, 2321.49)\<close> is \<open>322.00\<close>.
\<close>

theorem override_returned_verbatim:
  assumes "(d, m, r, a) \<in> set hardcoded_cases"
    and "py_int dv = Inr d" and "py_int mv = Inr m" and "py_float rv = Inr r"
  shows "calculate self dv mv rv = Inr a
     \<and> calculate self (PyInt 4) (PyInt 69) (PyFloat (232149 / 100)) = Inr 322"
  using assms
  by (auto simp add: calculate_def dispatch_def hardcoded_cases_def)

theorem override_returned_verbatim_witness:
  "(5, 196, 122849 / 100, 51123 / 100) \<in> set hardcoded_cases
   \<and> py_int (PyInt 5) = Inr 5 \<and> py_int (PyInt 196) = Inr 196
   \<and> py_float (PyFloat (122849 / 100)) = Inr (122849 / 100)
   \<and> calculate stub_calculator (PyInt 5) (PyInt 196) (PyFloat (122849 / 100)) = Inr (51123 / 100)
   \<and> calculate stub_calculator (PyInt 4) (PyInt 69) (PyFloat (232149 / 100)) = Inr 322"
proof -
  have h: "(5, 196, 122849 / 100, 51123 / 100) \<in> set hardcoded_cases"
    by (simp add: hardcoded_cases_def)
  show ?thesis
    using override_returned_verbatim [OF h, of "PyInt 5" "PyInt 196"
        "PyFloat (122849 / 100)" stub_calculator] h
    by simp
qed

text \<open>
  C3 (as amended). A call with \<open>None\<close> for the duration, the miles or the receipts, a
  value that \<open>int()\<close> and \<open>float()\<close> cannot convert, fails with a \<open>TypeError\<close>. A
  negative number is not rejected. With a negative duration, numeric miles and float
  receipts the call returns \<open>0\<close>, the value of the undefined domain. With a duration
  1..7, negative miles (an int no lower than \<open>-2^53\<close>) and negative float receipts enter
  the formula like any other number: the result is the rounded sum of the per diem,
  \<open>miles * mileage_rate1\<close> and \<open>receipts * receipt_rate\<close>.
\<close>

theorem negative_arguments_not_rejected:
  "(PyNone \<in> {dv, mv, rv} \<longrightarrow> calculate self dv mv rv = Inl TypeError)
   \<and> (py_int dv = Inr d \<and> d < 0 \<and> py_int mv = Inr m \<longrightarrow>
        calculate (calculator_init general outlier) dv mv (PyFloat r) = Inr 0)
   \<and> (solution_rules d' = Some rule \<and> - (2 ^ 53) \<le> m' \<and> m' < 0 \<and> r' < 0 \<longrightarrow>
        calculate (calculator_init general outlier) (PyInt d') (PyInt m') (PyFloat r') =
          Inr (py_round2 (per_diem rule + of_int m' * mileage_rate1 rule
                 + r' * receipt_rate rule)))"
proof -
  have none: "calculate self dv mv rv = Inl TypeError" if "PyNone \<in> {dv, mv, rv}"
    using that by (cases dv; cases mv; cases rv) (auto simp add: calculate_def)
  have duration: "calculate (calculator_init general outlier) dv mv (PyFloat r) = Inr 0"
    if "py_int dv = Inr d \<and> d < 0 \<and> py_int mv = Inr m"
    using that by (simp add: calculate_def dispatch_outside py_round2_0)
  have formula:
    "calculate (calculator_init general outlier) (PyInt d') (PyInt m') (PyFloat r') =
       Inr (py_round2 (per_diem rule + of_int m' * mileage_rate1 rule
              + r' * receipt_rate rule))"
    if h: "solution_rules d' = Some rule \<and> - (2 ^ 53) \<le> m' \<and> m' < 0 \<and> r' < 0"
  proof -
    let ?c = "calculator_init general outlier"
    from h have rule: "solution_rules d' = Some rule" and m: "m' < 0" and r: "r' < 0"
      by simp_all
    have signs: "0 \<le> mileage_threshold rule" "0 < receipt_rate rule" "0 < receipt_cap rule"
      using solution_rules_signs [OF rule] by simp_all
    obtain dp t where "solution_params d' = Some dp" and "outlier_threshold dp = Some t"
        and "1800 \<le> t"
      using solution_params_shape [OF rule] by blast
    then have normal: "\<not> is_outlier (get_day_params ?c d') r'"
      using r by (simp add: is_outlier_def get_day_params_def calculator_init_sel)
    have "r' * receipt_rate rule < 0"
      using r signs(2) by (simp add: mult_neg_pos)
    then have receipt: "receipt_reimbursement rule (get_day_params ?c d') r' =
        r' * receipt_rate rule"
      using normal signs(3) by (simp add: receipt_reimbursement_def)
    have mileage: "mileage_reimbursement rule m' = of_int m' * mileage_rate1 rule"
      using m signs(1) by (simp add: mileage_reimbursement_def)
    have pen: "low_receipt_penalty rule = 0"
      using rule by (rule solution_rules_penalty)
    have "(d', m', r') \<notin> (\<lambda>(d, m, r, a). (d, m, r)) ` set hardcoded_cases"
      using r by (auto simp add: hardcoded_iff)
    then have "calculate ?c (PyInt d') (PyInt m') (PyFloat r') =
        Inr (py_round2 (short_trip rule (get_day_params ?c d') m' r'))"
      using rule by (simp add: calculate_def dispatch_short)
    then show ?thesis
      using pen receipt mileage by (simp add: short_trip_unfold)
  qed
  from none duration formula show ?thesis
    by blast
qed

theorem negative_arguments_not_rejected_witness:
  "PyNone \<in> {PyInt 3, PyNone, PyFloat 50}
   \<and> calculate stub_calculator (PyInt 3) PyNone (PyFloat 50) = Inl TypeError
   \<and> py_int (PyFloat (- 5 / 2)) = Inr (- 2) \<and> (- 2 :: int) < 0
   \<and> py_int (PyInt (- 100)) = Inr (- 100)
   \<and> calculate stub_calculator (PyFloat (- 5 / 2)) (PyInt (- 100)) (PyFloat (- 50)) = Inr 0
   \<and> solution_rules 1 = Some (the (solution_rules 1))
   \<and> - (2 ^ 53) \<le> (- 10 :: int) \<and> (- 10 :: int) < 0 \<and> (- 50 :: rat) < 0
   \<and> calculate stub_calculator (PyInt 1) (PyInt (- 10)) (PyFloat (- 50)) =
       Inr (py_round2 (40 + (- 10) * (5 / 10) + (- 50) * (75 / 100)))"
proof -
  have t: "py_int (PyFloat (- 5 / 2)) = Inr (- 2)"
    by code_simp
  have h1: "solution_rules 1 = Some (the (solution_rules 1))"
    by (simp add: solution_rules_def)
  have r1: "the (solution_rules 1) =
      \<lparr>per_diem = 40, mileage_rate1 = 5 / 10, mileage_threshold = 75,
       mileage_rate2 = 3 / 10, receipt_rate = 75 / 100, receipt_cap = 1100,
       low_receipt_threshold = 10, low_receipt_penalty = 0\<rparr>"
    by (simp add: solution_rules_def)
  have one: "calculate stub_calculator (PyInt 3) PyNone (PyFloat 50) = Inl TypeError"
    using negative_arguments_not_rejected
      [of "PyInt 3" PyNone "PyFloat 50" stub_calculator]
    by simp
  have two: "calculate stub_calculator (PyFloat (- 5 / 2)) (PyInt (- 100)) (PyFloat (- 50))
      = Inr 0"
    using negative_arguments_not_rejected
      [of "PyFloat (- 5 / 2)" "PyInt (- 100)" "PyFloat (- 50)" stub_calculator "- 2"
        "- 100" stub_general stub_outlier "- 50"] t
    by (simp add: stub_calculator_def)
  have three: "calculate stub_calculator (PyInt 1) (PyInt (- 10)) (PyFloat (- 50)) =
      Inr (py_round2 (40 + (- 10) * (5 / 10) + (- 50) * (75 / 100)))"
    using negative_arguments_not_rejected
      [of "PyInt 3" PyNone "PyFloat 50" stub_calculator 0 0 stub_general stub_outlier 0 1
        "the (solution_rules 1)" "- 10" "- 50"] h1
    by (simp add: stub_calculator_def r1)
  from t h1 one two three show ?thesis
    by simp
qed

theorem negative_duration_counterexample:
  "calculate stub_calculator (PyInt (- 1)) (PyInt 100) (PyFloat 50) = Inr 0
   \<and> calculate stub_calculator (PyInt 1) (PyInt (- 10)) (PyFloat (- 50)) = Inr (- 5 / 2)"
  by code_simp

text \<open>
  C4. When the converted duration is below 1 or above 14 the result is exactly \<open>0\<close>
  (no hardcoded case has such a duration); in particular \<open>calculate(0, 100, 50.00)\<close>
  and \<open>calculate(15, 100, 50.00)\<close> are \<open>0\<close>.
\<close>

theorem undefined_domain_returns_zero:
  "(py_int dv = Inr d \<and> py_int mv = Inr m \<and> py_float rv = Inr r \<and> (d < 1 \<or> 14 < d)
      \<longrightarrow> calculate (calculator_init general outlier) dv mv rv = Inr 0)
   \<and> calculate (calculator_init general outlier) (PyInt 0) (PyInt 100) (PyFloat 50) = Inr 0
   \<and> calculate (calculator_init general outlier) (PyInt 15) (PyInt 100) (PyFloat 50) = Inr 0"
  by (auto simp add: calculate_def dispatch_outside py_round2_0)

theorem undefined_domain_returns_zero_witness:
  "py_int (PyInt 20) = Inr 20 \<and> py_int (PyInt 100) = Inr 100
   \<and> py_float (PyFloat 50) = Inr 50 \<and> ((20 :: int) < 1 \<or> (14 :: int) < 20)
   \<and> calculate stub_calculator (PyInt 20) (PyInt 100) (PyFloat 50) = Inr 0
   \<and> calculate stub_calculator (PyInt 0) (PyInt 100) (PyFloat 50) = Inr 0"
  using undefined_domain_returns_zero
    [of "PyInt 20" 20 "PyInt 100" 100 "PyFloat 50" 50 stub_general stub_outlier]
  by (simp add: stub_calculator_def)

text \<open>
  C5 (as amended). The regime detector of \<^verbatim>\<open>solver_v5.py\<close> puts each receipts value
  in exactly one regime: bug iff the receipts exceed the bug threshold, else anomaly iff
  they exceed the anomaly threshold, else normal; \<open>calculate\<close> applies the receipt
  formula of that regime and of no other. As the receipts grow the regime never goes
  back (normal, then anomaly, then bug). The anomaly regime is not always met on the
  way: it holds some receipts value exactly when there is an anomaly threshold and it
  lies strictly below the bug threshold (or there is no bug threshold), and then every
  way from normal to bug passes through it; with equal or inverted thresholds, or with
  no anomaly threshold, the regime goes from normal straight to bug. The detector of
  \<^verbatim>\<open>solution.py\<close> has two regimes: for a duration 1..7 a trip is an outlier iff the
  receipts exceed that duration's outlier threshold, and it never goes back to normal
  as the receipts grow.
\<close>

theorem regime_detector_ordered:
  "(v5_rules v5 d = Some rule \<longrightarrow>
      v5_calculate v5 (PyInt d) (PyInt m) (PyFloat r) =
        Inr (py_round2 (per_diem rule + mileage_reimbursement rule m
          + (if exceeds r (bug_threshold (v5_get_day_params v5 d))
             then r * get_or_0 (bug_rate (v5_get_day_params v5 d))
             else if exceeds r (anomaly_threshold (v5_get_day_params v5 d))
             then r * get_or_0 (anomaly_rate (v5_get_day_params v5 d))
             else min (r * receipt_rate rule) (receipt_cap rule))
          - (if \<not> exceeds r (bug_threshold (v5_get_day_params v5 d))
                \<and> \<not> exceeds r (anomaly_threshold (v5_get_day_params v5 d))
                \<and> 0 < r \<and> r < low_receipt_threshold rule
             then low_receipt_penalty rule else 0))))
   \<and> (regime_of dp r = Bug \<longleftrightarrow> exceeds r (bug_threshold dp))
   \<and> (regime_of dp r = Anomaly \<longleftrightarrow>
        \<not> exceeds r (bug_threshold dp) \<and> exceeds r (anomaly_threshold dp))
   \<and> (regime_of dp r = Normal \<longleftrightarrow>
        \<not> exceeds r (bug_threshold dp) \<and> \<not> exceeds r (anomaly_threshold dp))
   \<and> (r \<le> r' \<longrightarrow> regime_rank (regime_of dp r) \<le> regime_rank (regime_of dp r'))
   \<and> ((\<exists>x. regime_of dp x = Anomaly) \<longleftrightarrow>
        (case anomaly_threshold dp of
           None \<Rightarrow> False
         | Some a \<Rightarrow> (case bug_threshold dp of None \<Rightarrow> True | Some b \<Rightarrow> a < b)))
   \<and> (anomaly_threshold dp = Some a \<and> bug_threshold dp = Some b \<and> a < b
        \<and> regime_of dp r = Normal \<and> regime_of dp r' = Bug
      \<longrightarrow> r < b \<and> b < r' \<and> regime_of dp b = Anomaly)
   \<and> (1 \<le> d' \<and> d' \<le> 7 \<longrightarrow>
        (is_outlier (get_day_params (calculator_init general outlier) d') r
           \<longleftrightarrow> outlier_thresholds ! nat (d' - 1) < r))
   \<and> (r \<le> r' \<and> is_outlier sdp r \<longrightarrow> is_outlier sdp r')"
proof -
  let ?vp = "v5_get_day_params v5 d"
  have calc: "v5_calculate v5 (PyInt d) (PyInt m) (PyFloat r) =
        Inr (py_round2 (per_diem rule + mileage_reimbursement rule m
          + (if exceeds r (bug_threshold ?vp) then r * get_or_0 (bug_rate ?vp)
             else if exceeds r (anomaly_threshold ?vp) then r * get_or_0 (anomaly_rate ?vp)
             else min (r * receipt_rate rule) (receipt_cap rule))
          - (if \<not> exceeds r (bug_threshold ?vp) \<and> \<not> exceeds r (anomaly_threshold ?vp)
                \<and> 0 < r \<and> r < low_receipt_threshold rule
             then low_receipt_penalty rule else 0)))"
    if "v5_rules v5 d = Some rule"
    using that
    by (simp add: v5_calculate_def v5_formula_def v5_receipt_reimbursement_def is_bug_def
        is_anomaly_def Let_def)
  have bug: "regime_of dp r = Bug \<longleftrightarrow> exceeds r (bug_threshold dp)"
    by (simp add: regime_of_def is_bug_def)
  have anomaly: "regime_of dp r = Anomaly \<longleftrightarrow>
      \<not> exceeds r (bug_threshold dp) \<and> exceeds r (anomaly_threshold dp)"
    by (simp add: regime_of_def is_bug_def is_anomaly_def)
  have normal: "regime_of dp r = Normal \<longleftrightarrow>
      \<not> exceeds r (bug_threshold dp) \<and> \<not> exceeds r (anomaly_threshold dp)"
    by (simp add: regime_of_def is_bug_def is_anomaly_def)
  have mono: "regime_rank (regime_of dp r) \<le> regime_rank (regime_of dp r')" if le: "r \<le> r'"
  proof -
    have "exceeds r (bug_threshold dp) \<Longrightarrow> exceeds r' (bug_threshold dp)"
      and "exceeds r (anomaly_threshold dp) \<Longrightarrow> exceeds r' (anomaly_threshold dp)"
      using le by (simp_all add: exceeds_mono)
    then show ?thesis
      by (auto simp add: regime_of_def is_bug_def is_anomaly_def)
  qed
  have any: "regime_of dp x = Anomaly \<longleftrightarrow>
      \<not> exceeds x (bug_threshold dp) \<and> exceeds x (anomaly_threshold dp)" for x
    by (simp add: regime_of_def is_bug_def is_anomaly_def)
  have inhabited: "(\<exists>x. regime_of dp x = Anomaly) \<longleftrightarrow>
      (case anomaly_threshold dp of
         None \<Rightarrow> False
       | Some a \<Rightarrow> (case bug_threshold dp of None \<Rightarrow> True | Some b \<Rightarrow> a < b))"
  proof (cases "anomaly_threshold dp")
    case None
    then show ?thesis
      by (simp add: any)
  next
    case at: (Some a)
    show ?thesis
    proof (cases "bug_threshold dp")
      case None
      have "regime_of dp (a + 1) = Anomaly"
        using at None by (simp add: any)
      then show ?thesis
        using at None by auto
    next
      case bt: (Some b)
      show ?thesis
      proof (cases "a < b")
        case True
        then have "regime_of dp b = Anomaly"
          using at bt by (simp add: any)
        then show ?thesis
          using at bt True by auto
      next
        case False
        then show ?thesis
          using at bt by (auto simp add: any)
      qed
    qed
  qed
  have through: "r < b \<and> b < r' \<and> regime_of dp b = Anomaly"
    if "anomaly_threshold dp = Some a \<and> bug_threshold dp = Some b \<and> a < b
      \<and> regime_of dp r = Normal \<and> regime_of dp r' = Bug"
    using that by (auto simp add: regime_of_def is_bug_def is_anomaly_def split: if_splits)
  have two: "is_outlier (get_day_params (calculator_init general outlier) d') r
      \<longleftrightarrow> outlier_thresholds ! nat (d' - 1) < r" if "1 \<le> d' \<and> d' \<le> 7"
    using that solution_outlier_threshold [of d' general outlier]
    by (simp add: is_outlier_def)
  have flag: "is_outlier sdp r'" if "r \<le> r' \<and> is_outlier sdp r"
    using that by (auto simp add: is_outlier_def intro: exceeds_mono)
  from calc bug anomaly normal mono inhabited through two flag show ?thesis
    by blast
qed

theorem regime_detector_ordered_witness:
  "v5_rules v5_example 1 = Some (the (solution_rules 1))
   \<and> v5_calculate v5_example (PyInt 1) (PyInt 0) (PyFloat 900) =
       Inr (py_round2 (40 + 0 + 900 * (30 / 100) - 0))
   \<and> (500 :: rat) \<le> 1500
   \<and> regime_rank (regime_of v5_example_params 500)
       \<le> regime_rank (regime_of v5_example_params 1500)
   \<and> anomaly_threshold v5_example_params = Some 800
   \<and> bug_threshold v5_example_params = Some 1000 \<and> (800 :: rat) < 1000
   \<and> regime_of v5_example_params 500 = Normal \<and> regime_of v5_example_params 1500 = Bug
   \<and> regime_of v5_example_params 1000 = Anomaly
   \<and> (1 :: int) \<le> 3 \<and> (3 :: int) \<le> 7
   \<and> is_outlier (get_day_params stub_calculator 3) 2201
   \<and> \<not> is_outlier (get_day_params stub_calculator 3) 2200
   \<and> (2201 :: rat) \<le> 2500
   \<and> is_outlier (get_day_params stub_calculator 3) 2500"
proof -
  have h: "v5_rules v5_example 1 = Some (the (solution_rules 1))"
    by (simp add: v5_example_def solution_rules_def)
  have r1: "the (solution_rules 1) =
      \<lparr>per_diem = 40, mileage_rate1 = 5 / 10, mileage_threshold = 75,
       mileage_rate2 = 3 / 10, receipt_rate = 75 / 100, receipt_cap = 1100,
       low_receipt_threshold = 10, low_receipt_penalty = 0\<rparr>"
    by (simp add: solution_rules_def)
  have p: "v5_get_day_params v5_example 1 = v5_example_params"
    by (simp add: v5_get_day_params_def v5_example_def)
  have n: "regime_of v5_example_params 500 = Normal"
    and b: "regime_of v5_example_params 1500 = Bug"
    by (simp_all add: regime_of_def is_bug_def is_anomaly_def v5_example_params_def)
  have t3: "outlier_thresholds ! 2 = 2200"
    by (simp add: outlier_thresholds_def)
  have calc: "v5_calculate v5_example (PyInt 1) (PyInt 0) (PyFloat 900) =
       Inr (py_round2 (40 + 0 + 900 * (30 / 100) - 0))"
    using regime_detector_ordered
      [of v5_example 1 "the (solution_rules 1)" 0 900 v5_example_params 900 800 1000 3
        stub_general stub_outlier "get_day_params stub_calculator 3"] h
    by (simp add: p r1 v5_example_params_def mileage_reimbursement_def)
  have order: "regime_rank (regime_of v5_example_params 500)
       \<le> regime_rank (regime_of v5_example_params 1500)
     \<and> regime_of v5_example_params 1000 = Anomaly"
    using regime_detector_ordered
      [of v5_example 1 "the (solution_rules 1)" 0 500 v5_example_params 1500 800 1000 3
        stub_general stub_outlier "get_day_params stub_calculator 3"] n b
    by (simp add: v5_example_params_def)
  have o1: "is_outlier (get_day_params stub_calculator 3) 2201"
    using regime_detector_ordered
      [of v5_example 1 "the (solution_rules 1)" 0 2201 v5_example_params 2500 800 1000 3
        stub_general stub_outlier "get_day_params stub_calculator 3"]
    by (simp add: stub_calculator_def t3)
  have o2: "\<not> is_outlier (get_day_params stub_calculator 3) 2200"
    using regime_detector_ordered
      [of v5_example 1 "the (solution_rules 1)" 0 2200 v5_example_params 2500 800 1000 3
        stub_general stub_outlier "get_day_params stub_calculator 3"]
    by (simp add: stub_calculator_def t3)
  have o3: "is_outlier (get_day_params stub_calculator 3) 2500"
    using regime_detector_ordered
      [of v5_example 1 "the (solution_rules 1)" 0 2201 v5_example_params 2500 800 1000 3
        stub_general stub_outlier "get_day_params stub_calculator 3"] o1
    by simp
  from h calc order n b o1 o2 o3 show ?thesis
    by (simp add: v5_example_params_def)
qed

theorem anomaly_regime_skipped_counterexample:
  "anomaly_threshold v5_equal_thresholds = Some 1000
   \<and> bug_threshold v5_equal_thresholds = Some 1000
   \<and> regime_of v5_equal_thresholds 1000 = Normal
   \<and> regime_of v5_equal_thresholds 1200 = Bug
   \<and> \<not> (\<exists>x. regime_of v5_equal_thresholds x = Anomaly)
   \<and> v5_calculate v5_equal_example (PyInt 1) (PyInt 0) (PyFloat 1000) = Inr 790
   \<and> v5_calculate v5_equal_example (PyInt 1) (PyInt 0) (PyFloat 1200) = Inr 46"
proof -
  have "\<not> (\<exists>x. regime_of v5_equal_thresholds x = Anomaly)"
    by (auto simp add: regime_of_def is_bug_def is_anomaly_def v5_equal_thresholds_def)
  moreover have "anomaly_threshold v5_equal_thresholds = Some 1000"
    and "bug_threshold v5_equal_thresholds = Some 1000"
    by (simp_all add: v5_equal_thresholds_def)
  moreover have "regime_of v5_equal_thresholds 1000 = Normal"
    and "regime_of v5_equal_thresholds 1200 = Bug"
    and "v5_calculate v5_equal_example (PyInt 1) (PyInt 0) (PyFloat 1000) = Inr 790"
    and "v5_calculate v5_equal_example (PyInt 1) (PyInt 0) (PyFloat 1200) = Inr 46"
    by code_simp+
  ultimately show ?thesis
    by blast
qed

text \<open>
  C6. For a converted duration 8..14 (no hardcoded case has one) \<open>calculate\<close> returns
  the prediction of one model on the converted \<open>(duration, miles, receipts)\<close>, rounded
  to two decimals: of the outlier model when the receipts exceed 2500, of the general
  model otherwise. The other model has no influence on the result.
\<close>

theorem long_trip_model_routing:
  assumes "py_int dv = Inr d" and "py_int mv = Inr m" and "py_float rv = Inr r"
    and "8 \<le> d" and "d \<le> 14"
  shows "calculate (calculator_init general outlier) dv mv rv =
       Inr (py_round2 (if 2500 < r then outlier d m r else general d m r))
     \<and> \<bar>py_round2 (if 2500 < r then outlier d m r else general d m r)
         - (if 2500 < r then outlier d m r else general d m r)\<bar> \<le> 1 / 200
     \<and> py_round2 (if 2500 < r then outlier d m r else general d m r) * 100 \<in> \<int>"
  using assms py_round2_near py_round2_cents
  by (simp add: calculate_def dispatch_outside long_trip_def calculator_init_sel)

theorem long_trip_model_routing_witness:
  "py_int (PyInt 8) = Inr 8 \<and> py_int (PyInt 862) = Inr 862
   \<and> py_float (PyFloat 2500) = Inr 2500 \<and> py_float (PyFloat (250001 / 100)) = Inr (250001 / 100)
   \<and> (8 :: int) \<le> 8 \<and> (8 :: int) \<le> 14
   \<and> calculate stub_calculator (PyInt 8) (PyInt 862) (PyFloat 2500) = Inr 1008
   \<and> calculate stub_calculator (PyInt 8) (PyInt 862) (PyFloat (250001 / 100)) = Inr 2008"
proof -
  have g: "py_round2 (stub_general 8 862 2500) = 1008"
    and o: "py_round2 (stub_outlier 8 862 (250001 / 100)) = 2008"
    by code_simp+
  show ?thesis
    using long_trip_model_routing
      [of "PyInt 8" 8 "PyInt 862" 862 "PyFloat 2500" 2500 stub_general stub_outlier]
      long_trip_model_routing
      [of "PyInt 8" 8 "PyInt 862" 862 "PyFloat (250001 / 100)" "250001 / 100"
        stub_general stub_outlier]
      g o
    by (simp add: stub_calculator_def)
qed

text \<open>
  C7. In the normal regime the receipt term never exceeds \<open>receipt_cap\<close>, in
  \<^verbatim>\<open>solution.py\<close> and in \<^verbatim>\<open>solver_v5.py\<close>, for any rule. With the regime forced to
  normal (no outlier threshold) this holds for all receipts, however large, and the
  term is the cap itself once \<open>receipts * receipt_rate\<close> has reached it.
\<close>

theorem normal_receipt_term_capped:
  "(\<not> is_outlier day_params receipts \<longrightarrow>
      receipt_reimbursement rule day_params receipts \<le> receipt_cap rule)
   \<and> (regime_of v5_day_params receipts = Normal \<longrightarrow>
      v5_receipt_reimbursement rule v5_day_params receipts \<le> receipt_cap rule)
   \<and> receipt_reimbursement rule no_day_params receipts \<le> receipt_cap rule
   \<and> (receipt_cap rule \<le> receipts * receipt_rate rule \<longrightarrow>
      receipt_reimbursement rule no_day_params receipts = receipt_cap rule)"
  by (auto simp add: receipt_reimbursement_def v5_receipt_reimbursement_def regime_of_def
      is_outlier_def no_day_params_def split: if_splits)

theorem normal_receipt_term_capped_witness:
  "\<not> is_outlier (get_day_params stub_calculator 7) 1500
   \<and> receipt_reimbursement (the (solution_rules 7)) (get_day_params stub_calculator 7) 1500
       \<le> receipt_cap (the (solution_rules 7))
   \<and> regime_of v5_example_params 500 = Normal
   \<and> v5_receipt_reimbursement (the (solution_rules 7)) v5_example_params 500
       \<le> receipt_cap (the (solution_rules 7))
   \<and> receipt_cap (the (solution_rules 7)) \<le> 1500 * receipt_rate (the (solution_rules 7))
   \<and> receipt_reimbursement (the (solution_rules 7)) no_day_params 1500 = 900"
proof -
  have h: "\<not> is_outlier (get_day_params stub_calculator 7) 1500"
    and c: "receipt_cap (the (solution_rules 7)) = 900"
    and r: "receipt_rate (the (solution_rules 7)) = 8 / 10"
    and n: "regime_of v5_example_params 500 = Normal"
    by code_simp+
  show ?thesis
    using normal_receipt_term_capped
      [of "get_day_params stub_calculator 7" 1500 "the (solution_rules 7)" v5_example_params]
      normal_receipt_term_capped
      [of "get_day_params stub_calculator 7" 500 "the (solution_rules 7)" v5_example_params] h n
    by (simp add: c r)
qed


text \<open>
  C8. The mileage term is \<open>miles * rate1\<close> up to the mileage threshold and
  \<open>threshold * rate1 + (miles - threshold) * rate2\<close> beyond it, for any rule. The two
  branch formulas agree at \<open>miles = threshold\<close>, so the term has no jump there: the step
  from the threshold to the next mile is \<open>rate2\<close>, the slope of the upper segment.
\<close>

theorem mileage_term_tiered_continuous:
  "mileage_reimbursement rule miles =
     (if miles \<le> mileage_threshold rule then of_int miles * mileage_rate1 rule
      else of_int (mileage_threshold rule) * mileage_rate1 rule
           + of_int (miles - mileage_threshold rule) * mileage_rate2 rule)
   \<and> of_int (mileage_threshold rule) * mileage_rate1 rule
       + of_int (mileage_threshold rule - mileage_threshold rule) * mileage_rate2 rule
     = mileage_reimbursement rule (mileage_threshold rule)
   \<and> mileage_reimbursement rule (mileage_threshold rule + 1)
       - mileage_reimbursement rule (mileage_threshold rule) = mileage_rate2 rule"
  by (simp add: mileage_reimbursement_def)

text \<open>
  C9. \<open>calculate\<close> converts its arguments first: a call with numeric duration and miles
  is the call with their \<open>int()\<close> values, and \<open>int()\<close> of a float is its truncation
  toward zero (the integer between zero and the float, less than 1 away from it);
  integer receipts are the call with the equal float. Nothing is rejected or rounded.
\<close>

theorem arguments_truncated_toward_zero:
  assumes "py_int dv = Inr d" and "py_int mv = Inr m"
  shows "calculate self dv mv rv = calculate self (PyInt d) (PyInt m) rv
     \<and> calculate self (PyFloat x) (PyFloat y) rv =
         calculate self (PyInt (py_trunc x)) (PyInt (py_trunc y)) rv
     \<and> \<bar>of_int (py_trunc x)\<bar> \<le> \<bar>x\<bar> \<and> \<bar>x - of_int (py_trunc x)\<bar> < 1
     \<and> calculate self dv mv (PyInt n) = calculate self dv mv (PyFloat (of_int n))"
  using assms py_trunc_toward_zero [of x]
  by (simp add: calculate_def)

theorem arguments_truncated_toward_zero_witness:
  "py_int (PyFloat (79 / 10)) = Inr 7 \<and> py_int (PyFloat (- 3 / 2)) = Inr (- 1)
   \<and> calculate stub_calculator (PyFloat (79 / 10)) (PyFloat (- 3 / 2)) (PyFloat 50) =
       calculate stub_calculator (PyInt 7) (PyInt (- 1)) (PyFloat 50)
   \<and> calculate stub_calculator (PyFloat (79 / 10)) (PyFloat (- 3 / 2)) (PyInt 50) =
       calculate stub_calculator (PyFloat (79 / 10)) (PyFloat (- 3 / 2)) (PyFloat 50)"
proof -
  have h1: "py_int (PyFloat (79 / 10)) = Inr 7"
    and h2: "py_int (PyFloat (- 3 / 2)) = Inr (- 1)"
    by code_simp+
  show ?thesis
    using arguments_truncated_toward_zero [OF h1 h2, of stub_calculator "PyFloat 50" 0 0 50] h1 h2
    by simp
qed

text \<open>
  C10. In the shipped rule table \<open>low_receipt_penalty\<close> is \<open>0\<close> for every duration
  1..7. Receipts with \<open>0 < receipts < low_receipt_threshold\<close> are in the normal regime
  there, and the amount returned for them is the rounded sum of per diem, mileage term
  and receipt term, as if the penalty branch did not exist.
\<close>

theorem low_receipt_penalty_noop:
  assumes "1 \<le> d" and "d \<le> 7"
    and "0 < r" and "r < low_receipt_threshold (the (solution_rules d))"
  shows "solution_rules d \<noteq> None
     \<and> low_receipt_penalty (the (solution_rules d)) = 0
     \<and> \<not> is_outlier (get_day_params (calculator_init general outlier) d) r
     \<and> calculate (calculator_init general outlier) (PyInt d) (PyInt m) (PyFloat r) =
         Inr (py_round2 (per_diem (the (solution_rules d))
           + mileage_reimbursement (the (solution_rules d)) m
           + min (r * receipt_rate (the (solution_rules d)))
               (receipt_cap (the (solution_rules d)))))"
proof -
  let ?c = "calculator_init general outlier"
  obtain rule where rule: "solution_rules d = Some rule"
    using assms(1,2) solution_rules_dom [of d] by auto
  have pen: "low_receipt_penalty rule = 0"
    using rule by (rule solution_rules_penalty)
  have "low_receipt_threshold rule = 10"
    using rule by (rule solution_rules_threshold)
  then have small: "r < 10"
    using assms(4) rule by simp
  obtain dp t where "solution_params d = Some dp" and "outlier_threshold dp = Some t"
      and "1800 \<le> t"
    using solution_params_shape [OF rule] by blast
  then have normal: "\<not> is_outlier (get_day_params ?c d) r"
    using small by (simp add: is_outlier_def get_day_params_def calculator_init_sel)
  have "(d, m, r) \<notin> (\<lambda>(d, m, r, a). (d, m, r)) ` set hardcoded_cases"
    using small by (auto simp add: hardcoded_iff)
  then have "calculate ?c (PyInt d) (PyInt m) (PyFloat r) =
      Inr (py_round2 (short_trip rule (get_day_params ?c d) m r))"
    using rule by (simp add: calculate_def dispatch_short)
  then have "calculate ?c (PyInt d) (PyInt m) (PyFloat r) =
      Inr (py_round2 (per_diem rule + mileage_reimbursement rule m
        + min (r * receipt_rate rule) (receipt_cap rule)))"
    using pen normal by (simp add: short_trip_unfold receipt_reimbursement_def)
  with rule pen normal show ?thesis
    by simp
qed

theorem low_receipt_penalty_noop_witness:
  "(1 :: int) \<le> 3 \<and> (3 :: int) \<le> 7 \<and> (0 :: rat) < 4
   \<and> 4 < low_receipt_threshold (the (solution_rules 3))
   \<and> low_receipt_penalty (the (solution_rules 3)) = 0
   \<and> calculate stub_calculator (PyInt 3) (PyInt 93) (PyFloat 4) =
       Inr (py_round2 (240 + 93 * (7 / 10) + min (4 * (75 / 100)) 1000))"
proof -
  have h: "4 < low_receipt_threshold (the (solution_rules 3))"
    by (simp add: solution_rules_def)
  have r3: "the (solution_rules 3) =
      \<lparr>per_diem = 240, mileage_rate1 = 7 / 10, mileage_threshold = 100,
       mileage_rate2 = 25 / 100, receipt_rate = 75 / 100, receipt_cap = 1000,
       low_receipt_threshold = 10, low_receipt_penalty = 0\<rparr>"
    by (simp add: solution_rules_def)
  show ?thesis
    using low_receipt_penalty_noop [of 3 4 stub_general stub_outlier 93] h
    by (simp add: stub_calculator_def r3 mileage_reimbursement_def)
qed

section \<open>An observation on truncation and the hardcoded cases\<close>

text \<open>
  The comment \<open># Rounded miles\<close> at line 46 of \<^verbatim>\<open>solution.py\<close> says that the key
  \<open>196\<close> of the third hardcoded case is a rounded mileage. Since \<open>int()\<close> truncates, a
  call with the miles \<open>195.6\<close> is converted to \<open>195\<close>, misses that case and is answered
  by the formula.
\<close>

lemma truncated_miles_miss_hardcoded_case:
  "calculate stub_calculator (PyInt 5) (PyFloat (1956 / 10)) (PyFloat (122849 / 100)) =
     Inr (138429 / 100)
   \<and> calculate stub_calculator (PyInt 5) (PyInt 196) (PyFloat (122849 / 100)) =
     Inr (51123 / 100)"
  by code_simp

end
